theory Spec2Isabelle
  imports Main
begin

section \<open>The Dataform editor extension (vscode/extension.ts)\<close>

text \<open>
  The extension is glue between an editor host and a language server: every function of
  it is a short sequence of calls on the host's API and on the language client. The
  embedding makes those calls explicit. The host's API is a record of functions (what
  each call answers), a call that acts on the host or on the client is an \<open>event\<close> of a
  trace, and an \<^verbatim>\<open>async\<close> function returns the outcome of its promise together with the
  trace of the calls it made.
\<close>

subsection \<open>Values of the host\<close>

record uri =
  scheme :: string
  fsPath :: string

record text_document =
  document_uri :: uri

record text_editor =
  document :: text_document

record workspace_folder =
  folder_uri :: uri
  folder_name :: string

datatype cancellation_token = CancellationToken nat

record formatting_options =
  tabSize :: nat
  insertSpaces :: bool

text \<open>\<^verbatim>\<open>new vscode.RelativePattern(base, pattern)\<close>\<close>

datatype relative_pattern = RelativePattern (base: workspace_folder) (pattern: string)

text \<open>\<^verbatim>\<open>new Error(message)\<close>, a value like any other until it is thrown.\<close>

datatype error = Error (message: string)

text \<open>
  What a promise comes to: it stays pending for ever, it is rejected (an exception
  thrown inside an \<^verbatim>\<open>async\<close> function rejects the function's promise), or it is
  resolved with a value.
\<close>

datatype exn = TypeError | ServerError string

datatype 'a promise = Pending | Rejected exn | Resolved 'a

text \<open>
  The value an \<^verbatim>\<open>async\<close> function hands to its caller: \<^verbatim>\<open>undefined\<close> when it
  ends without a \<^verbatim>\<open>return\<close> expression, or the response of a request.
\<close>

datatype js_result = Undefined | Response string

datatype configuration_target = Global | Workspace | WorkspaceFolder

text \<open>
  The settings of one key, scope by scope; \<open>None\<close> is a scope that does not set the key.
  \<^verbatim>\<open>get\<close> reads the most specific scope that sets it, \<^verbatim>\<open>update\<close> writes one scope.
\<close>

record configuration =
  defaultValue :: "bool option"
  globalValue :: "bool option"
  workspaceValue :: "bool option"
  workspaceFolderValue :: "bool option"

type_synonym settings = "string \<Rightarrow> configuration"

definition config_get :: "settings \<Rightarrow> string \<Rightarrow> string \<Rightarrow> bool option" where
  "config_get cfg section key =
     (let c = cfg (section @ ''.'' @ key) in
      case workspaceFolderValue c of Some v \<Rightarrow> Some v
      | None \<Rightarrow> (case workspaceValue c of Some v \<Rightarrow> Some v
        | None \<Rightarrow> (case globalValue c of Some v \<Rightarrow> Some v
          | None \<Rightarrow> defaultValue c)))"

definition config_update ::
  "settings \<Rightarrow> string \<Rightarrow> string \<Rightarrow> bool \<Rightarrow> configuration_target \<Rightarrow> settings" where
  "config_update cfg section key v target =
     (let k = section @ ''.'' @ key; c = cfg k in
      cfg (k := (case target of
                   Global \<Rightarrow> c\<lparr>globalValue := Some v\<rparr>
                 | Workspace \<Rightarrow> c\<lparr>workspaceValue := Some v\<rparr>
                 | WorkspaceFolder \<Rightarrow> c\<lparr>workspaceFolderValue := Some v\<rparr>)))"

text \<open>
  JavaScript's truthiness of what \<^verbatim>\<open>get\<close> returns for a boolean setting: \<^verbatim>\<open>undefined\<close>
  and \<^verbatim>\<open>false\<close> are falsy.
\<close>

fun truthy :: "bool option \<Rightarrow> bool" where
  "truthy None = False"
| "truthy (Some b) = b"

subsection \<open>The host and the language server, as the extension sees them\<close>

text \<open>
  Each field is the answer of one call of the host's API (the \<^verbatim>\<open>vscode\<close> namespace) or
  of the language client, taken as a parameter:
  \<^item> \<open>activeTextEditor\<close>: \<^verbatim>\<open>vscode.window.activeTextEditor\<close> as the locator reads it when
    it is called, \<open>None\<close> for \<^verbatim>\<open>undefined\<close>;
  \<^item> \<open>activeTextEditorResumed\<close>: the same property of the host as the format action
    reads it again, when it resumes after the awaited locator. The property is mutable:
    while the file search is awaited the user may close the editor or turn to another
    document, so the two reads are two values;
  \<^item> \<open>getWorkspaceFolder\<close>: \<^verbatim>\<open>vscode.workspace.getWorkspaceFolder(uri)\<close>;
  \<^item> \<open>asRelativePath\<close>: \<^verbatim>\<open>vscode.workspace.asRelativePath(uri, includeWorkspaceFolder)\<close>;
  \<^item> \<open>findFiles\<close>: \<^verbatim>\<open>vscode.workspace.findFiles(include, exclude, maxResults, token)\<close>,
    the list its promise resolves with (\<open>None\<close> for \<^verbatim>\<open>null\<close> and for an omitted token);
  \<^item> \<open>fileExists\<close>: the file system behind a workspace folder, by path relative to the
    folder's root. The extension never reads it; only \<open>findFiles\<close> does;
  \<^item> \<open>onReady\<close>: what the promise of \<^verbatim>\<open>client.onReady()\<close> comes to;
  \<^item> \<open>server\<close>: what the promise of \<^verbatim>\<open>client.sendRequest(method, params, token)\<close> comes to;
  \<^item> \<open>settings\<close>: the configuration store behind \<^verbatim>\<open>workspace.getConfiguration\<close>;
  \<^item> \<open>getExtension\<close>: \<^verbatim>\<open>vscode.extensions.getExtension(id)\<close>, here whether it is defined;
  \<^item> \<open>selection\<close>: the item the user picks in a prompt with items, \<open>None\<close> when the
    prompt is dismissed.
  The user-interface promises of the host that the extension awaits
  (\<^verbatim>\<open>showErrorMessage\<close>, \<^verbatim>\<open>showInformationMessage\<close>, \<^verbatim>\<open>findFiles\<close>) are taken to
  settle; the two promises of the language client may stay pending or be rejected.
\<close>

record host =
  activeTextEditor :: "text_editor option"
  activeTextEditorResumed :: "text_editor option"
  getWorkspaceFolder :: "uri \<Rightarrow> workspace_folder option"
  asRelativePath :: "uri \<Rightarrow> bool \<Rightarrow> string"
  findFiles ::
    "relative_pattern \<Rightarrow> string option \<Rightarrow> nat option \<Rightarrow> cancellation_token option \<Rightarrow> uri list"
  fileExists :: "workspace_folder \<Rightarrow> string \<Rightarrow> bool"
  onReady :: "unit promise"
  server :: "string \<Rightarrow> string list option \<Rightarrow> cancellation_token option \<Rightarrow> string promise"
  settings :: settings
  getExtension :: "string \<Rightarrow> bool"
  selection :: "string \<Rightarrow> string list \<Rightarrow> string option"

text \<open>The calls that act on the host or on the client, in the order they are made.\<close>

datatype event =
    ShowErrorMessage string
  | ShowInformationMessage string "string list"
  | SendRequest string "string list option" "cancellation_token option"
  | FindFiles relative_pattern "string option" "nat option" "cancellation_token option"
  | OpenExternal string
  | ConfigurationUpdate string string bool configuration_target
  | CreateFileSystemWatcher string
  | NewLanguageClient string string
  | RegisterCommand string
  | RegisterDocumentFormattingEditProvider string
  | SubscriptionsPush nat
  | ClientStart
  | ClientReady
  | OnNotification string

fun is_message :: "event \<Rightarrow> bool" where
  "is_message (ShowErrorMessage m) = True"
| "is_message (ShowInformationMessage m items) = True"
| "is_message _ = False"

fun is_request :: "event \<Rightarrow> bool" where
  "is_request (SendRequest m ps t) = True"
| "is_request _ = False"

subsection \<open>getProjectDirPath\<close>

text \<open>The three errors of the locator, by the names the specification gives them.\<close>

definition NoWorkspace :: error where
  "NoWorkspace = Error ''Dataform files outside of a workspace are not supported.''"

definition RemoteUnsupported :: error where
  "RemoteUnsupported = Error ''Remote Dataform files are not supported.''"

definition MissingProjectMarker :: error where
  "MissingProjectMarker =
     Error ''Workspaces without workflow_settings.yaml (or dataform.json) are not supported.''"

text \<open>
  \<^verbatim>\<open>vscode.window.activeTextEditor.document.uri\<close>: reading \<^verbatim>\<open>document\<close> of
  \<^verbatim>\<open>undefined\<close> throws a TypeError.
\<close>

definition activeDocumentUri :: "text_editor option \<Rightarrow> exn + uri" where
  "activeDocumentUri activeEditor =
     (case activeEditor of
        None \<Rightarrow> Inl TypeError
      | Some editor \<Rightarrow> Inr (document_uri (document editor)))"

definition getProjectDirPath ::
  "host \<Rightarrow> cancellation_token option \<Rightarrow> (error + string) promise \<times> event list" where
  "getProjectDirPath h token =
     (case activeDocumentUri (activeTextEditor h) of
        Inl e \<Rightarrow> (Rejected e, [])
      | Inr u \<Rightarrow>
          (case getWorkspaceFolder h u of
             None \<Rightarrow> (Resolved (Inl NoWorkspace), [])
           | Some folder \<Rightarrow>
               if scheme (folder_uri folder) \<noteq> ''file''
               then (Resolved (Inl RemoteUnsupported), [])
               else
                 let yamlPattern = RelativePattern folder ''{workflow_settings.yaml,dataform.json}'';
                     yamls = findFiles h yamlPattern None (Some 1) token
                 in (if length yamls = 0
                     then Resolved (Inl MissingProjectMarker)
                     else Resolved (Inr (fsPath (folder_uri folder))),
                     [FindFiles yamlPattern None (Some 1) token])))"

subsection \<open>provideDocumentFormattingEdits\<close>

text \<open>
  The document and the formatting options are parameters the function never reads: the
  document it formats is the one of the editor that is active when it resumes after the
  locator, read anew from the host, and with no editor active then the read throws. After
  the request the function ends without a \<^verbatim>\<open>return\<close>: its promise follows the
  request's promise, and resolves with \<^verbatim>\<open>undefined\<close>.
\<close>

definition provideDocumentFormattingEdits ::
  "host \<Rightarrow> text_document \<Rightarrow> formatting_options \<Rightarrow> cancellation_token \<Rightarrow>
   js_result promise \<times> event list" where
  "provideDocumentFormattingEdits h doc opts token =
     (case getProjectDirPath h (Some token) of
        (Pending, evs) \<Rightarrow> (Pending, evs)
      | (Rejected e, evs) \<Rightarrow> (Rejected e, evs)
      | (Resolved (Inl projectDir), evs) \<Rightarrow>
          (Resolved Undefined, evs @ [ShowErrorMessage (message projectDir)])
      | (Resolved (Inr projectDir), evs) \<Rightarrow>
          (case activeDocumentUri (activeTextEditorResumed h) of
             Inl e \<Rightarrow> (Rejected e, evs)
           | Inr u \<Rightarrow>
               let action = asRelativePath h u False;
                   request = SendRequest ''format'' (Some [projectDir, action]) (Some token)
               in (case server h ''format'' (Some [projectDir, action]) (Some token) of
                     Pending \<Rightarrow> (Pending, evs @ [request])
                   | Rejected e \<Rightarrow> (Rejected e, evs @ [request])
                   | Resolved response \<Rightarrow> (Resolved Undefined, evs @ [request]))))"

text \<open>The handler of the command \<^verbatim>\<open>dataform.compile\<close>: the request's promise is dropped.\<close>

definition compile :: "host \<Rightarrow> event list" where
  "compile h = [SendRequest ''compile'' None None]"

subsection \<open>activate\<close>

text \<open>
  The language client keeps one handler for each notification method; a handler is the
  list of calls it makes on the host when it runs. \<open>notify\<close> is the client receiving one
  notification from the server: it runs the handler registered for the method, if any.
\<close>

record language_client =
  notificationHandlers :: "string \<rightharpoonup> (string \<Rightarrow> event list)"

definition onNotification ::
  "language_client \<Rightarrow> string \<Rightarrow> (string \<Rightarrow> event list) \<Rightarrow> language_client" where
  "onNotification c method handler =
     c\<lparr>notificationHandlers := (notificationHandlers c)(method \<mapsto> handler)\<rparr>"

definition notify :: "language_client \<Rightarrow> string \<Rightarrow> string \<Rightarrow> event list" where
  "notify c method param =
     (case notificationHandlers c method of
        None \<Rightarrow> []
      | Some handler \<Rightarrow> handler param)"

text \<open>What an activation leaves behind: its promise, its calls, the client, the settings.\<close>

record activation =
  outcome :: "unit promise"
  events :: "event list"
  client :: language_client
  settings_after :: settings

definition dont_show_again :: string where
  "dont_show_again = ''Don'' @ [CHR 0x27] @ ''t show again''"

definition recommendation :: string where
  "recommendation =
     ''The Dataform extension recommends installing the YAML extension for workflow_settings.yaml support.''"

definition activate :: "host \<Rightarrow> activation" where
  "activate h =
     (let setup =
            [CreateFileSystemWatcher ''**/.clientrc'',
             NewLanguageClient ''dataformLanguageServer'' ''Dataform Language Server'',
             RegisterCommand ''dataform.compile'',
             RegisterDocumentFormattingEditProvider ''sqlx'',
             SubscriptionsPush 2,
             ClientStart];
          client0 = \<lparr>notificationHandlers = Map.empty\<rparr>
      in case onReady h of
           Pending \<Rightarrow>
             \<lparr>outcome = Pending, events = setup, client = client0, settings_after = settings h\<rparr>
         | Rejected e \<Rightarrow>
             \<lparr>outcome = Rejected e, events = setup, client = client0,
              settings_after = settings h\<rparr>
         | Resolved _ \<Rightarrow>
             let client1 = onNotification client0 ''error''
                             (\<lambda>errorMessage. [ShowErrorMessage errorMessage]);
                 client2 = onNotification client1 ''info''
                             (\<lambda>message. [ShowInformationMessage message []]);
                 client3 = onNotification client2 ''success''
                             (\<lambda>message. [ShowInformationMessage message []]);
                 relay = setup @ [ClientReady, OnNotification ''error'', OnNotification ''info'',
                                  OnNotification ''success'']
             in if truthy (config_get (settings h) ''dataform'' ''recommendYamlExtension'')
                then
                  if \<not> getExtension h ''redhat.vscode-yaml''
                  then
                    let items = [''Install'', dont_show_again];
                        prompt = ShowInformationMessage recommendation items;
                        choice = selection h recommendation items
                    in if choice = Some ''Install''
                       then \<lparr>outcome = Resolved (),
                             events = relay @ [prompt,
                                               OpenExternal ''vscode:extension/redhat.vscode-yaml''],
                             client = client3, settings_after = settings h\<rparr>
                       else if choice = Some dont_show_again
                       then \<lparr>outcome = Resolved (),
                             events = relay @ [prompt,
                                               ConfigurationUpdate ''dataform''
                                                 ''recommendYamlExtension'' False Global],
                             client = client3,
                             settings_after =
                               config_update (settings h) ''dataform'' ''recommendYamlExtension''
                                 False Global\<rparr>
                       else \<lparr>outcome = Resolved (), events = relay @ [prompt],
                             client = client3, settings_after = settings h\<rparr>
                  else \<lparr>outcome = Resolved (), events = relay, client = client3,
                        settings_after = settings h\<rparr>
                else \<lparr>outcome = Resolved (), events = relay, client = client3,
                      settings_after = settings h\<rparr>)"

text \<open>
  A trace attaches its notification handlers to a ready client only: reading it from
  the left, with \<open>ready\<close> whether the client has been ready so far, every
  \<open>OnNotification\<close> is met with \<open>ready\<close> true.
\<close>

fun attached_when_ready :: "bool \<Rightarrow> event list \<Rightarrow> bool" where
  "attached_when_ready ready [] = True"
| "attached_when_ready ready (ClientReady # evs) = attached_when_ready True evs"
| "attached_when_ready ready (OnNotification method # evs) =
     (ready \<and> attached_when_ready ready evs)"
| "attached_when_ready ready (ev # evs) = attached_when_ready ready evs"

subsection \<open>What the host's file search is taken to do\<close>

text \<open>
  The locator asks the host for the files that match a glob pattern under the folder. Its
  pattern is one brace group of literal names, which the host's glob syntax reads as
  "one of these names": \<open>alternatives\<close> lists them. Any other pattern is read as one
  literal name.
\<close>

fun split_commas :: "string \<Rightarrow> string list" where
  "split_commas [] = [[]]"
| "split_commas (c # cs) =
     (if c = CHR '','' then [] # split_commas cs
      else (case split_commas cs of
              [] \<Rightarrow> [[c]]
            | name # names \<Rightarrow> (c # name) # names))"

definition alternatives :: "string \<Rightarrow> string list" where
  "alternatives p =
     (if 2 \<le> length p \<and> hd p = CHR ''{'' \<and> last p = CHR ''}''
      then split_commas (butlast (tl p))
      else [p])"

text \<open>
  The search with this pattern and this token reports what is there: asked for at most
  one file and with no exclusion, it finds a file exactly when a file of one of the
  pattern's names lies at the root of the pattern's folder.
\<close>

definition findFiles_reports ::
  "host \<Rightarrow> relative_pattern \<Rightarrow> cancellation_token option \<Rightarrow> bool" where
  "findFiles_reports h rp token =
     ((findFiles h rp None (Some 1) token \<noteq> []) =
      (\<exists>name \<in> set (alternatives (pattern rp)). fileExists h (base rp) name))"

subsection \<open>A host to run the extension on\<close>

text \<open>
  One local workspace folder \<^verbatim>\<open>/w\<close> with a deprecated \<^verbatim>\<open>dataform.json\<close> at its root, the
  file \<^verbatim>\<open>/w/definitions/a.sqlx\<close> in the active editor throughout, a server that answers every
  request, the recommendation switched on by default, no YAML extension, and a user who
  answers the prompt with its second item.
\<close>

definition project_folder :: workspace_folder where
  "project_folder = \<lparr>folder_uri = \<lparr>scheme = ''file'', fsPath = ''/w''\<rparr>, folder_name = ''w''\<rparr>"

definition project_document :: text_document where
  "project_document = \<lparr>document_uri = \<lparr>scheme = ''file'', fsPath = ''/w/definitions/a.sqlx''\<rparr>\<rparr>"

definition project_host :: host where
  "project_host =
     \<lparr>activeTextEditor = Some \<lparr>document = project_document\<rparr>,
      activeTextEditorResumed = Some \<lparr>document = project_document\<rparr>,
      getWorkspaceFolder = (\<lambda>u. if take 3 (fsPath u) = ''/w/'' then Some project_folder else None),
      asRelativePath = (\<lambda>u includeWorkspaceFolder. drop 3 (fsPath u)),
      findFiles = (\<lambda>rp exclude maxResults token.
                     [\<lparr>scheme = ''file'', fsPath = ''/w/dataform.json''\<rparr>]),
      fileExists = (\<lambda>folder name. name = ''dataform.json''),
      onReady = Resolved (),
      server = (\<lambda>method params token. Resolved ''formatted''),
      settings = (\<lambda>key. \<lparr>defaultValue = Some True, globalValue = None,
                             workspaceValue = None, workspaceFolderValue = None\<rparr>),
      getExtension = (\<lambda>name. False),
      selection = (\<lambda>message items. Some (items ! 1))\<rparr>"

section \<open>Properties\<close>

subsection \<open>The locator\<close>

lemma alternatives_markers:
  "alternatives ''{workflow_settings.yaml,dataform.json}'' =
     [''workflow_settings.yaml'', ''dataform.json'']"
  by (simp add: alternatives_def)

lemma locator_events:
  "filter is_message (snd (getProjectDirPath h token)) = [] \<and>
   filter is_request (snd (getProjectDirPath h token)) = []"
  by (simp add: getProjectDirPath_def Let_def split: sum.split option.split)

lemma locator_cases:
  "fst (getProjectDirPath h token) = Resolved (Inl e) \<Longrightarrow>
     e = NoWorkspace \<or> e = RemoteUnsupported \<or> e = MissingProjectMarker"
  by (auto simp add: getProjectDirPath_def Let_def split: sum.splits option.splits if_splits)

lemma locator_resolves_path:
  assumes "fst (getProjectDirPath h token) = Resolved (Inr dir)"
  shows "\<exists>editor folder. activeTextEditor h = Some editor \<and>
           getWorkspaceFolder h (document_uri (document editor)) = Some folder \<and>
           dir = fsPath (folder_uri folder) \<and>
           snd (getProjectDirPath h token) =
             [FindFiles (RelativePattern folder ''{workflow_settings.yaml,dataform.json}'')
                None (Some 1) token]"
  using assms
  by (auto simp add: getProjectDirPath_def activeDocumentUri_def Let_def
           split: option.splits if_splits)

text \<open>
  C4. When the active document lies in no opened workspace folder, the locator resolves
  with the error NoWorkspace, whatever the rest of the host is, and makes no call.
\<close>

theorem locator_no_workspace:
  assumes "activeTextEditor h = Some editor"
    and "getWorkspaceFolder h (document_uri (document editor)) = None"
  shows "getProjectDirPath h token = (Resolved (Inl NoWorkspace), [])"
  using assms by (simp add: getProjectDirPath_def activeDocumentUri_def)

theorem locator_no_workspace_witness:
  "getProjectDirPath (project_host\<lparr>getWorkspaceFolder := \<lambda>u. None\<rparr>) None =
     (Resolved (Inl NoWorkspace), [])"
proof -
  let ?h = "project_host\<lparr>getWorkspaceFolder := \<lambda>u. None\<rparr>"
  have editor: "activeTextEditor ?h = Some \<lparr>document = project_document\<rparr>"
    by (simp add: project_host_def)
  have outside: "getWorkspaceFolder ?h (document_uri (document \<lparr>document = project_document\<rparr>)) = None"
    by simp
  show ?thesis
    using locator_no_workspace [OF editor outside] .
qed

text \<open>
  C5. When the folder of the active document has a scheme other than \<^verbatim>\<open>file\<close>, the
  locator resolves with the error RemoteUnsupported and has not searched for a marker
  file: its trace is empty.
\<close>

theorem locator_remote:
  assumes "activeTextEditor h = Some editor"
    and "getWorkspaceFolder h (document_uri (document editor)) = Some folder"
    and "scheme (folder_uri folder) \<noteq> ''file''"
  shows "getProjectDirPath h token = (Resolved (Inl RemoteUnsupported), [])"
  using assms by (simp add: getProjectDirPath_def activeDocumentUri_def)

theorem locator_remote_witness:
  "getProjectDirPath
     (project_host\<lparr>getWorkspaceFolder :=
        \<lambda>u. Some \<lparr>folder_uri = \<lparr>scheme = ''vscode-remote'', fsPath = ''/w''\<rparr>,
                  folder_name = ''w''\<rparr>\<rparr>) None =
     (Resolved (Inl RemoteUnsupported), [])"
proof -
  let ?folder = "\<lparr>folder_uri = \<lparr>scheme = ''vscode-remote'', fsPath = ''/w''\<rparr>, folder_name = ''w''\<rparr>"
  let ?h = "project_host\<lparr>getWorkspaceFolder := \<lambda>u. Some ?folder\<rparr>"
  have editor: "activeTextEditor ?h = Some \<lparr>document = project_document\<rparr>"
    by (simp add: project_host_def)
  have inside: "getWorkspaceFolder ?h (document_uri (document \<lparr>document = project_document\<rparr>)) =
      Some ?folder"
    by simp
  have remote: "scheme (folder_uri ?folder) \<noteq> ''file''"
    by simp
  show ?thesis
    using locator_remote [OF editor inside remote] .
qed

text \<open>
  C3. For an active document in a folder of scheme \<^verbatim>\<open>file\<close>, and a host whose file search
  reports what is there, the locator resolves with the error MissingProjectMarker exactly
  when neither \<^verbatim>\<open>workflow_settings.yaml\<close> nor \<^verbatim>\<open>dataform.json\<close> lies at the root of the
  folder, and otherwise with the file-system path of the folder.
\<close>

theorem locator_marker:
  assumes "activeTextEditor h = Some editor"
    and "getWorkspaceFolder h (document_uri (document editor)) = Some folder"
    and "scheme (folder_uri folder) = ''file''"
    and "findFiles_reports h
           (RelativePattern folder ''{workflow_settings.yaml,dataform.json}'') token"
  shows "(fst (getProjectDirPath h token) = Resolved (Inl MissingProjectMarker) \<longleftrightarrow>
            \<not> fileExists h folder ''workflow_settings.yaml'' \<and>
            \<not> fileExists h folder ''dataform.json'') \<and>
         (fst (getProjectDirPath h token) \<noteq> Resolved (Inl MissingProjectMarker) \<longrightarrow>
            fst (getProjectDirPath h token) = Resolved (Inr (fsPath (folder_uri folder))))"
proof -
  let ?yamls = "findFiles h (RelativePattern folder ''{workflow_settings.yaml,dataform.json}'')
                  None (Some 1) token"
  have found: "(?yamls \<noteq> []) =
      (fileExists h folder ''workflow_settings.yaml'' \<or> fileExists h folder ''dataform.json'')"
    using assms(4) by (simp add: findFiles_reports_def alternatives_markers)
  have run: "fst (getProjectDirPath h token) =
      (if ?yamls = [] then Resolved (Inl MissingProjectMarker)
       else Resolved (Inr (fsPath (folder_uri folder))))"
    using assms(1-3) by (simp add: getProjectDirPath_def activeDocumentUri_def Let_def)
  show ?thesis
    using found run by auto
qed

theorem locator_marker_witness:
  "fst (getProjectDirPath project_host None) = Resolved (Inr ''/w'') \<and>
   fst (getProjectDirPath
          (project_host\<lparr>findFiles := \<lambda>rp exclude maxResults token. [],
                        fileExists := \<lambda>folder name. False\<rparr>) None) =
     Resolved (Inl MissingProjectMarker)"
  using locator_marker [of project_host "\<lparr>document = project_document\<rparr>" project_folder None]
        locator_marker [of "project_host\<lparr>findFiles := \<lambda>rp exclude maxResults token. [],
                                        fileExists := \<lambda>folder name. False\<rparr>"
                          "\<lparr>document = project_document\<rparr>" project_folder None]
  by (simp add: project_host_def project_document_def project_folder_def findFiles_reports_def
        alternatives_markers MissingProjectMarker_def)

text \<open>
  C10. The locator reads the document of the active text editor before anything else:
  with no active text editor, the locator and the format action are rejected with a
  TypeError, make no call on the host, and resolve with none of the three locator errors.
\<close>

theorem no_active_editor_throws:
  assumes "activeTextEditor h = None"
  shows "getProjectDirPath h token = (Rejected TypeError, []) \<and>
         provideDocumentFormattingEdits h doc opts tok = (Rejected TypeError, [])"
  using assms
  by (simp add: provideDocumentFormattingEdits_def getProjectDirPath_def activeDocumentUri_def)

theorem no_active_editor_throws_witness:
  "getProjectDirPath (project_host\<lparr>activeTextEditor := None\<rparr>) None = (Rejected TypeError, []) \<and>
   provideDocumentFormattingEdits (project_host\<lparr>activeTextEditor := None\<rparr>) project_document
     \<lparr>tabSize = 2, insertSpaces = True\<rparr> (CancellationToken 0) = (Rejected TypeError, [])"
proof -
  have none: "activeTextEditor (project_host\<lparr>activeTextEditor := None\<rparr>) = None"
    by simp
  show ?thesis
    using no_active_editor_throws [OF none] .
qed

subsection \<open>The format action\<close>

text \<open>
  C1. When the locator resolves with an error, the format action shows one message, the
  error message of that error, sends no request, and resolves with \<^verbatim>\<open>undefined\<close>. The
  error is the value the locator's promise resolves with (one of its three errors), not
  an exception that rejects it.
\<close>

theorem format_locator_error:
  assumes "fst (getProjectDirPath h (Some token)) = Resolved (Inl e)"
  shows "fst (provideDocumentFormattingEdits h doc opts token) = Resolved Undefined \<and>
         filter is_message (snd (provideDocumentFormattingEdits h doc opts token)) =
           [ShowErrorMessage (message e)] \<and>
         filter is_request (snd (provideDocumentFormattingEdits h doc opts token)) = [] \<and>
         (e = NoWorkspace \<or> e = RemoteUnsupported \<or> e = MissingProjectMarker)"
proof -
  obtain evs where loc: "getProjectDirPath h (Some token) = (Resolved (Inl e), evs)"
    using assms by (cases "getProjectDirPath h (Some token)") simp
  have quiet: "filter is_message evs = [] \<and> filter is_request evs = []"
    using locator_events [of h "Some token"] loc by simp
  have run: "provideDocumentFormattingEdits h doc opts token =
      (Resolved Undefined, evs @ [ShowErrorMessage (message e)])"
    by (simp add: provideDocumentFormattingEdits_def loc)
  show ?thesis
    using quiet run locator_cases [OF assms] by simp
qed

theorem format_locator_error_witness:
  "fst (getProjectDirPath (project_host\<lparr>getWorkspaceFolder := \<lambda>u. None\<rparr>)
          (Some (CancellationToken 0))) = Resolved (Inl NoWorkspace) \<and>
   filter is_message
     (snd (provideDocumentFormattingEdits (project_host\<lparr>getWorkspaceFolder := \<lambda>u. None\<rparr>)
             project_document \<lparr>tabSize = 2, insertSpaces = True\<rparr> (CancellationToken 0))) =
     [ShowErrorMessage ''Dataform files outside of a workspace are not supported.''] \<and>
   filter is_request
     (snd (provideDocumentFormattingEdits (project_host\<lparr>getWorkspaceFolder := \<lambda>u. None\<rparr>)
             project_document \<lparr>tabSize = 2, insertSpaces = True\<rparr> (CancellationToken 0))) = []"
proof -
  let ?h = "project_host\<lparr>getWorkspaceFolder := \<lambda>u. None\<rparr>"
  have fails: "fst (getProjectDirPath ?h (Some (CancellationToken 0))) =
      Resolved (Inl NoWorkspace)"
    by (simp add: getProjectDirPath_def activeDocumentUri_def project_host_def)
  have shown: "message NoWorkspace = ''Dataform files outside of a workspace are not supported.''"
    by (simp add: NoWorkspace_def)
  show ?thesis
    using fails format_locator_error [OF fails] shown by simp
qed

text \<open>
  C2, as the code has it. When the locator resolves with a directory and a text editor
  is active as the action resumes after the locator, the format action sends one request:
  \<^verbatim>\<open>format\<close>, with the directory and the path of that editor's document relative to the
  workspace as its parameters and with the token the host passed to the action. It
  shows no message.
\<close>

theorem format_sends_one_request:
  assumes "fst (getProjectDirPath h (Some token)) = Resolved (Inr dir)"
    and "activeTextEditorResumed h = Some editor"
  shows "filter is_request (snd (provideDocumentFormattingEdits h doc opts token)) =
           [SendRequest ''format''
              (Some [dir, asRelativePath h (document_uri (document editor)) False])
              (Some token)] \<and>
         filter is_message (snd (provideDocumentFormattingEdits h doc opts token)) = []"
proof -
  obtain folder where evs: "snd (getProjectDirPath h (Some token)) =
      [FindFiles (RelativePattern folder ''{workflow_settings.yaml,dataform.json}'')
         None (Some 1) (Some token)]"
    using locator_resolves_path [OF assms(1)] by blast
  have loc: "getProjectDirPath h (Some token) =
      (Resolved (Inr dir),
       [FindFiles (RelativePattern folder ''{workflow_settings.yaml,dataform.json}'')
          None (Some 1) (Some token)])"
    using assms(1) evs by (cases "getProjectDirPath h (Some token)") simp
  show ?thesis
    by (simp add: provideDocumentFormattingEdits_def loc activeDocumentUri_def assms(2) Let_def
          split: promise.split)
qed

theorem format_sends_one_request_witness:
  "fst (getProjectDirPath project_host (Some (CancellationToken 7))) = Resolved (Inr ''/w'') \<and>
   activeTextEditorResumed project_host = Some \<lparr>document = project_document\<rparr> \<and>
   filter is_request
     (snd (provideDocumentFormattingEdits project_host project_document
             \<lparr>tabSize = 2, insertSpaces = True\<rparr> (CancellationToken 7))) =
     [SendRequest ''format'' (Some [''/w'', ''definitions/a.sqlx''])
        (Some (CancellationToken 7))]"
proof -
  have succeeds: "fst (getProjectDirPath project_host (Some (CancellationToken 7))) =
      Resolved (Inr ''/w'')"
    by (simp add: getProjectDirPath_def activeDocumentUri_def project_host_def
          project_document_def project_folder_def Let_def)
  have editor: "activeTextEditorResumed project_host = Some \<lparr>document = project_document\<rparr>"
    by (simp add: project_host_def)
  have relative:
    "asRelativePath project_host (document_uri (document \<lparr>document = project_document\<rparr>)) False =
       ''definitions/a.sqlx''"
    by (simp add: project_host_def project_document_def)
  show ?thesis
    using succeeds editor relative
      format_sends_one_request [OF succeeds editor, of project_document
        "\<lparr>tabSize = 2, insertSpaces = True\<rparr>"]
    by simp
qed

text \<open>
  C2, as it is written, fails on a host that is \<open>project_host\<close> until the file search
  and has no active text editor after it: the locator resolves with \<^verbatim>\<open>/w\<close>, the second
  read of the active editor throws, and the action is rejected with a TypeError having
  sent no request.
\<close>

theorem format_sends_one_request_counterexample:
  "fst (getProjectDirPath (project_host\<lparr>activeTextEditorResumed := None\<rparr>)
          (Some (CancellationToken 7))) = Resolved (Inr ''/w'') \<and>
   fst (provideDocumentFormattingEdits (project_host\<lparr>activeTextEditorResumed := None\<rparr>)
          project_document \<lparr>tabSize = 2, insertSpaces = True\<rparr> (CancellationToken 7)) =
     Rejected TypeError \<and>
   filter is_request
     (snd (provideDocumentFormattingEdits (project_host\<lparr>activeTextEditorResumed := None\<rparr>)
             project_document \<lparr>tabSize = 2, insertSpaces = True\<rparr> (CancellationToken 7))) = []"
  by (simp add: provideDocumentFormattingEdits_def getProjectDirPath_def activeDocumentUri_def
        project_host_def project_document_def project_folder_def Let_def)

text \<open>
  C9, as the code has it. When the locator resolves with a directory, the format action
  turns the response into no text edit and does not hand it on either: it never resolves
  with the response. With a text editor active as the action resumes after the locator,
  its promise follows the promise of the request (pending, or rejected with the same
  exception) and, once the request is answered, resolves with \<^verbatim>\<open>undefined\<close> whatever
  the response is.
\<close>

theorem format_discards_response:
  assumes "fst (getProjectDirPath h (Some token)) = Resolved (Inr dir)"
  shows "fst (provideDocumentFormattingEdits h doc opts token) \<noteq> Resolved (Response r) \<and>
         (\<forall>editor. activeTextEditorResumed h = Some editor \<longrightarrow>
            fst (provideDocumentFormattingEdits h doc opts token) =
              (case server h ''format''
                      (Some [dir, asRelativePath h (document_uri (document editor)) False])
                      (Some token) of
                 Pending \<Rightarrow> Pending
               | Rejected e \<Rightarrow> Rejected e
               | Resolved response \<Rightarrow> Resolved Undefined))"
proof -
  obtain evs where loc: "getProjectDirPath h (Some token) = (Resolved (Inr dir), evs)"
    using assms by (cases "getProjectDirPath h (Some token)") simp
  have never: "fst (provideDocumentFormattingEdits h doc opts token) \<noteq> Resolved (Response r)"
    by (simp add: provideDocumentFormattingEdits_def loc Let_def
          split: sum.split promise.split)
  have run: "fst (provideDocumentFormattingEdits h doc opts token) =
      (case server h ''format''
              (Some [dir, asRelativePath h (document_uri (document editor)) False])
              (Some token) of
         Pending \<Rightarrow> Pending
       | Rejected e \<Rightarrow> Rejected e
       | Resolved response \<Rightarrow> Resolved Undefined)"
    if "activeTextEditorResumed h = Some editor" for editor
    using that
    by (simp add: provideDocumentFormattingEdits_def loc activeDocumentUri_def Let_def
          split: promise.split)
  show ?thesis
    using never run by blast
qed

theorem format_discards_response_witness:
  "fst (getProjectDirPath project_host (Some (CancellationToken 7))) = Resolved (Inr ''/w'') \<and>
   activeTextEditorResumed project_host = Some \<lparr>document = project_document\<rparr> \<and>
   fst (provideDocumentFormattingEdits project_host project_document
          \<lparr>tabSize = 2, insertSpaces = True\<rparr> (CancellationToken 7)) \<noteq>
     Resolved (Response ''formatted'') \<and>
   fst (provideDocumentFormattingEdits project_host project_document
          \<lparr>tabSize = 2, insertSpaces = True\<rparr> (CancellationToken 7)) = Resolved Undefined"
proof -
  have succeeds: "fst (getProjectDirPath project_host (Some (CancellationToken 7))) =
      Resolved (Inr ''/w'')"
    by (simp add: getProjectDirPath_def activeDocumentUri_def project_host_def
          project_document_def project_folder_def Let_def)
  have editor: "activeTextEditorResumed project_host = Some \<lparr>document = project_document\<rparr>"
    by (simp add: project_host_def)
  have answered: "server project_host ''format''
      (Some [''/w'', asRelativePath project_host
                       (document_uri (document \<lparr>document = project_document\<rparr>)) False])
      (Some (CancellationToken 7)) = Resolved ''formatted''"
    by (simp add: project_host_def)
  have both: "fst (provideDocumentFormattingEdits project_host project_document
          \<lparr>tabSize = 2, insertSpaces = True\<rparr> (CancellationToken 7)) \<noteq>
        Resolved (Response ''formatted'') \<and>
      (\<forall>editor. activeTextEditorResumed project_host = Some editor \<longrightarrow>
         fst (provideDocumentFormattingEdits project_host project_document
                \<lparr>tabSize = 2, insertSpaces = True\<rparr> (CancellationToken 7)) =
           (case server project_host ''format''
                   (Some [''/w'', asRelativePath project_host (document_uri (document editor)) False])
                   (Some (CancellationToken 7)) of
              Pending \<Rightarrow> Pending
            | Rejected e \<Rightarrow> Rejected e
            | Resolved response \<Rightarrow> Resolved Undefined))"
    using format_discards_response [OF succeeds, of project_document
        "\<lparr>tabSize = 2, insertSpaces = True\<rparr>" "''formatted''"] .
  then have "fst (provideDocumentFormattingEdits project_host project_document
          \<lparr>tabSize = 2, insertSpaces = True\<rparr> (CancellationToken 7)) =
      (case server project_host ''format''
              (Some [''/w'', asRelativePath project_host
                               (document_uri (document \<lparr>document = project_document\<rparr>)) False])
              (Some (CancellationToken 7)) of
         Pending \<Rightarrow> Pending
       | Rejected e \<Rightarrow> Rejected e
       | Resolved response \<Rightarrow> Resolved Undefined)"
    using editor by blast
  then have undefined_result: "fst (provideDocumentFormattingEdits project_host project_document
          \<lparr>tabSize = 2, insertSpaces = True\<rparr> (CancellationToken 7)) = Resolved Undefined"
    by (simp only: answered promise.case)
  show ?thesis
    using succeeds editor both undefined_result by blast
qed

text \<open>
  C9, as it is written, fails on the host \<open>project_host\<close>: the locator resolves with
  \<^verbatim>\<open>/w\<close>, the server answers the \<^verbatim>\<open>format\<close> request with \<^verbatim>\<open>formatted\<close>, and the action
  resolves with \<^verbatim>\<open>undefined\<close>, not with that response.
\<close>

theorem format_relays_response_counterexample:
  "fst (getProjectDirPath project_host (Some (CancellationToken 0))) = Resolved (Inr ''/w'') \<and>
   server project_host ''format'' (Some [''/w'', ''definitions/a.sqlx''])
     (Some (CancellationToken 0)) = Resolved ''formatted'' \<and>
   fst (provideDocumentFormattingEdits project_host project_document
          \<lparr>tabSize = 2, insertSpaces = True\<rparr> (CancellationToken 0)) = Resolved Undefined \<and>
   fst (provideDocumentFormattingEdits project_host project_document
          \<lparr>tabSize = 2, insertSpaces = True\<rparr> (CancellationToken 0)) \<noteq>
     Resolved (Response ''formatted'')"
  by (simp add: provideDocumentFormattingEdits_def getProjectDirPath_def activeDocumentUri_def
        project_host_def project_document_def project_folder_def Let_def)

subsection \<open>Activation\<close>

text \<open>
  C6. Once an activation has passed the client's readiness, one notification of the
  server on the channel \<^verbatim>\<open>error\<close>, \<^verbatim>\<open>info\<close> or \<^verbatim>\<open>success\<close> makes one call on the host's
  user interface: an error message for \<^verbatim>\<open>error\<close>, an information message for \<^verbatim>\<open>info\<close>
  and an information message for \<^verbatim>\<open>success\<close> too, each carrying the notification's text.
\<close>

theorem notification_relay:
  assumes "onReady h = Resolved ()"
  shows "notify (client (activate h)) ''error'' m = [ShowErrorMessage m] \<and>
         notify (client (activate h)) ''info'' m = [ShowInformationMessage m []] \<and>
         notify (client (activate h)) ''success'' m = [ShowInformationMessage m []]"
  using assms by (simp add: activate_def notify_def onNotification_def Let_def)

theorem notification_relay_witness:
  "notify (client (activate project_host)) ''error'' ''compilation failed'' =
     [ShowErrorMessage ''compilation failed''] \<and>
   notify (client (activate project_host)) ''info'' ''compiling'' =
     [ShowInformationMessage ''compiling'' []] \<and>
   notify (client (activate project_host)) ''success'' ''compiled'' =
     [ShowInformationMessage ''compiled'' []]"
proof -
  have ready: "onReady project_host = Resolved ()"
    by (simp add: project_host_def)
  show ?thesis
    using notification_relay [OF ready, of "''compilation failed''"]
          notification_relay [OF ready, of "''compiling''"]
          notification_relay [OF ready, of "''compiled''"]
    by blast
qed

text \<open>
  C7. In the trace of every activation, each registration of a notification handler
  comes after the client's readiness; and the client holds a handler only if the promise
  of \<^verbatim>\<open>onReady\<close> was resolved.
\<close>

theorem handlers_after_ready:
  "attached_when_ready False (events (activate h)) \<and>
   (notificationHandlers (client (activate h)) = Map.empty \<or> onReady h = Resolved ())"
  by (simp add: activate_def onNotification_def Let_def split: promise.split)

text \<open>
  C8. An activation shows no prompt, and leaves the settings alone, when the flag
  \<^verbatim>\<open>dataform.recommendYamlExtension\<close> is falsy or the YAML extension is installed. When the
  flag is truthy, the extension is absent and the client became ready, it shows one
  prompt, with the two items \<^verbatim>\<open>Install\<close> and \<^verbatim>\<open>Don't show again\<close>; picking the second
  writes \<^verbatim>\<open>false\<close> for the flag at the global scope, and dismissing the prompt leaves the
  settings as they were.
\<close>

theorem advisory:
  "((\<not> truthy (config_get (settings h) ''dataform'' ''recommendYamlExtension'') \<or>
      getExtension h ''redhat.vscode-yaml'') \<longrightarrow>
      filter is_message (events (activate h)) = [] \<and> settings_after (activate h) = settings h) \<and>
   (onReady h = Resolved () \<and>
    truthy (config_get (settings h) ''dataform'' ''recommendYamlExtension'') \<and>
    \<not> getExtension h ''redhat.vscode-yaml'' \<longrightarrow>
      filter is_message (events (activate h)) =
        [ShowInformationMessage recommendation [''Install'', dont_show_again]] \<and>
      (selection h recommendation [''Install'', dont_show_again] = Some dont_show_again \<longrightarrow>
         ConfigurationUpdate ''dataform'' ''recommendYamlExtension'' False Global
           \<in> set (events (activate h)) \<and>
         settings_after (activate h) =
           config_update (settings h) ''dataform'' ''recommendYamlExtension'' False Global \<and>
         globalValue (settings_after (activate h) ''dataform.recommendYamlExtension'') =
           Some False) \<and>
      (selection h recommendation [''Install'', dont_show_again] = None \<longrightarrow>
         settings_after (activate h) = settings h))"
proof -
  have differ: "dont_show_again \<noteq> ''Install''"
    by (simp add: dont_show_again_def)
  have written:
    "globalValue (config_update cfg ''dataform'' ''recommendYamlExtension'' False Global
       ''dataform.recommendYamlExtension'') = Some False" for cfg
    by (simp add: config_update_def Let_def)
  show ?thesis
    using differ written
    by (simp add: activate_def Let_def split: promise.split)
qed

theorem advisory_witness:
  "filter is_message (events (activate (project_host\<lparr>getExtension := \<lambda>name. True\<rparr>))) = [] \<and>
   filter is_message (events (activate project_host)) =
     [ShowInformationMessage recommendation [''Install'', dont_show_again]] \<and>
   globalValue (settings_after (activate project_host) ''dataform.recommendYamlExtension'') =
     Some False \<and>
   settings_after (activate (project_host\<lparr>selection := \<lambda>message items. None\<rparr>)) =
     settings project_host"
proof -
  let ?installed = "project_host\<lparr>getExtension := \<lambda>name. True\<rparr>"
  let ?dismissing = "project_host\<lparr>selection := \<lambda>message items. None\<rparr>"
  have installed: "getExtension ?installed ''redhat.vscode-yaml''"
    by simp
  have enabled: "onReady project_host = Resolved () \<and>
      truthy (config_get (settings project_host) ''dataform'' ''recommendYamlExtension'') \<and>
      \<not> getExtension project_host ''redhat.vscode-yaml''"
    by (simp add: project_host_def config_get_def)
  have picks: "selection project_host recommendation [''Install'', dont_show_again] =
      Some dont_show_again"
    by (simp add: project_host_def)
  have enabled': "onReady ?dismissing = Resolved () \<and>
      truthy (config_get (settings ?dismissing) ''dataform'' ''recommendYamlExtension'') \<and>
      \<not> getExtension ?dismissing ''redhat.vscode-yaml''"
    using enabled by simp
  have dismisses: "selection ?dismissing recommendation [''Install'', dont_show_again] = None"
    by simp
  have same: "settings ?dismissing = settings project_host"
    by simp
  have no_prompt: "filter is_message (events (activate ?installed)) = []"
    using advisory [of ?installed] installed by blast
  have prompt: "filter is_message (events (activate project_host)) =
      [ShowInformationMessage recommendation [''Install'', dont_show_again]]"
    using advisory [of project_host] enabled by blast
  have persisted:
    "globalValue (settings_after (activate project_host) ''dataform.recommendYamlExtension'') =
       Some False"
    using advisory [of project_host] enabled picks by blast
  have "settings_after (activate ?dismissing) = settings ?dismissing"
    using advisory [of ?dismissing] enabled' dismisses by blast
  then have unchanged: "settings_after (activate ?dismissing) = settings project_host"
    by (simp only: same)
  show ?thesis
    using no_prompt prompt persisted unchanged by blast
qed

end
